theory Spec2Isabelle
  imports Main
begin

section \<open>Configuration constants\<close>

text \<open>
  Instants are JavaScript time values: whole milliseconds since the epoch. A \<open>Date\<close>
  holds such an integer, and the difference of two of them, with one operand the
  fixed target of this program, stays below \<open>2 ^ 53\<close>, where the arithmetic of
  Numbers on integers (\<open>-\<close>, \<open>%\<close>, and \<open>Math.floor\<close> of a quotient by one of the
  constants used here) is exact. They are modelled as \<open>int\<close>.

  \<open>TARGET_DATE\<close> is \<open>new Date('2025-07-18T17:00:00-07:00')\<close>, that is
  2025-07-19T00:00:00Z, day 20288 after the epoch.
\<close>

definition TARGET_DATE :: int where
  "TARGET_DATE = 20288 * 86400000"

definition UPDATE_INTERVAL :: int where
  "UPDATE_INTERVAL = 60000"


section \<open>Time calculator\<close>

record TimeRemaining =
  days :: int
  hours :: int
  minutes :: int
  seconds :: int
  hasStarted :: bool

text \<open>
  \<open>getTimeRemaining\<close> reads the clock (\<open>new Date()\<close>) and the global \<open>TARGET_DATE\<close>;
  both are arguments here: \<open>target\<close> and \<open>now\<close>. On a positive \<open>difference\<close> the
  source takes \<open>Math.floor\<close> of quotients of non-negative integers, which is \<open>div\<close>,
  and \<open>%\<close> with a non-negative dividend, which is \<open>mod\<close>.
\<close>

definition getTimeRemaining :: "int \<Rightarrow> int \<Rightarrow> TimeRemaining" where
  "getTimeRemaining target now =
     (let difference = target - now in
      if difference \<le> 0
      then \<lparr>days = 0, hours = 0, minutes = 0, seconds = 0, hasStarted = True\<rparr>
      else \<lparr>days = difference div (1000 * 60 * 60 * 24),
            hours = (difference mod (1000 * 60 * 60 * 24)) div (1000 * 60 * 60),
            minutes = (difference mod (1000 * 60 * 60)) div (1000 * 60),
            seconds = (difference mod (1000 * 60)) div 1000,
            hasStarted = False\<rparr>)"


section \<open>Strings\<close>

text \<open>
  A JavaScript string is a sequence of UTF-16 code units, and \<open>length\<close> counts code
  units. Code units are \<open>nat\<close> below \<open>2 ^ 16\<close>; \<open>js\<close> embeds an ASCII literal.
\<close>

type_synonym jsstring = "nat list"

definition js :: "string \<Rightarrow> jsstring" where
  "js s = map of_char s"

text \<open>
  \<open>ToString\<close> of a Number that is a safe integer (\<open>Number.isSafeInteger\<close>: an integer
  of magnitude below \<open>2 ^ 53\<close>): its decimal numeral, with a minus sign when
  negative. This is what \<open>String(n)\<close> and a template literal \<open>${n}\<close> give there.
  Beyond that range a Number prints with rounded digits, and in exponent form from
  \<open>10 ^ 21\<close> on, which \<open>ToString\<close> does not follow: what is proved of the text of a
  number is proved of safe integers. The values this program passes are safe
  integers: the fields of \<open>getTimeRemaining\<close>, HTTP status codes, and \<open>60\<close>.
\<close>

definition isSafeInteger :: "int \<Rightarrow> bool" where
  "isSafeInteger n \<longleftrightarrow> - (2 ^ 53) < n \<and> n < 2 ^ 53"

fun digits :: "nat \<Rightarrow> jsstring" where
  "digits n = (if n < 10 then [48 + n] else digits (n div 10) @ [48 + n mod 10])"

declare digits.simps [simp del]

definition ToString :: "int \<Rightarrow> jsstring" where
  "ToString n = (if n < 0 then 45 # digits (nat (- n)) else digits (nat n))"

text \<open>
  \<open>String.prototype.padStart(targetLength, padString)\<close>: the string itself when it
  is long enough or the filler is empty, otherwise the filler repeated and cut to
  the missing length, in front of the string.
\<close>

definition padStart :: "jsstring \<Rightarrow> nat \<Rightarrow> jsstring \<Rightarrow> jsstring" where
  "padStart s targetLength padString =
     (if targetLength \<le> length s \<or> padString = [] then s
      else take (targetLength - length s)
             (concat (replicate (targetLength - length s) padString)) @ s)"


section \<open>Message formatter\<close>

text \<open>
  The payload is the object literal the source returns: objects keep their keys in
  the order written, which is the order \<open>JSON.stringify\<close> emits them in.
\<close>

datatype json =
    JString jsstring
  | JArray "json list"
  | JObject "(jsstring \<times> json) list"

text \<open>The characters of the source's literals outside ASCII, as UTF-16 code units.\<close>

definition party_popper :: jsstring where
  "party_popper = [0xD83C, 0xDF89]"  \<comment> \<open>U+1F389\<close>

definition rocket :: jsstring where
  "rocket = [0xD83D, 0xDE80]"  \<comment> \<open>U+1F680\<close>

definition calendar :: jsstring where
  "calendar = [0xD83D, 0xDCC5]"  \<comment> \<open>U+1F4C5\<close>

definition bullet :: jsstring where
  "bullet = [0x2022]"  \<comment> \<open>U+2022\<close>

definition formattedTime :: "'a TimeRemaining_scheme \<Rightarrow> jsstring" where
  "formattedTime timeRemaining =
     padStart (ToString (hours timeRemaining)) 2 (js ''0'') @ js '':'' @
     padStart (ToString (minutes timeRemaining)) 2 (js ''0'') @ js '':'' @
     padStart (ToString (seconds timeRemaining)) 2 (js ''0'')"

text \<open>
  The argument is any object with the five properties read here; whatever else it
  carries is the \<open>more\<close> part of the record scheme.
\<close>

definition formatCountdownMessage :: "'a TimeRemaining_scheme \<Rightarrow> json" where
  "formatCountdownMessage timeRemaining =
     (if hasStarted timeRemaining then
        JObject [(js ''blocks'', JArray [
          JObject [(js ''type'', JString (js ''section'')),
                   (js ''text'', JObject [
                      (js ''type'', JString (js ''mrkdwn'')),
                      (js ''text'', JString (party_popper @
                         js '' *The Dreamers in Tech Hackathon has begun!* '' @ party_popper))])]])]
      else
        JObject [(js ''blocks'', JArray [
          JObject [(js ''type'', JString (js ''header'')),
                   (js ''text'', JObject [
                      (js ''type'', JString (js ''plain_text'')),
                      (js ''text'', JString (rocket @
                         js '' Dreamers in Tech Hackathon Countdown''))])],
          JObject [(js ''type'', JString (js ''section'')),
                   (js ''text'', JObject [
                      (js ''type'', JString (js ''mrkdwn'')),
                      (js ''text'', JString (js ''*Kick-off Ceremony begins in:*''))])],
          JObject [(js ''type'', JString (js ''section'')),
                   (js ''fields'', JArray [
                      JObject [(js ''type'', JString (js ''mrkdwn'')),
                               (js ''text'', JString (js ''*Days*'' @ [10] @
                                  ToString (days timeRemaining)))],
                      JObject [(js ''type'', JString (js ''mrkdwn'')),
                               (js ''text'', JString (js ''*Time (HH:MM:SS)*'' @ [10] @
                                  formattedTime timeRemaining))]])],
          JObject [(js ''type'', JString (js ''context'')),
                   (js ''elements'', JArray [
                      JObject [(js ''type'', JString (js ''mrkdwn'')),
                               (js ''text'', JString (calendar @ js '' Friday, July 18 '' @
                                  bullet @ js '' 5pm PST / 7pm CST / 8pm EST''))]])]])])"


section \<open>Serialisation\<close>

text \<open>
  \<open>JSON.stringify\<close> without indentation. \<open>QuoteJSONString\<close> walks the string by code
  points: a well-formed surrogate pair is copied, the seven characters with a short
  escape get it, other code units below \<open>0x20\<close> and lone surrogates become a
  backslash, \<open>u\<close> and four lower-case hexadecimal digits, everything else is copied
  unchanged (so characters outside ASCII stay in the output as they are).
\<close>

definition leading_surrogate :: "nat \<Rightarrow> bool" where
  "leading_surrogate c \<longleftrightarrow> 0xD800 \<le> c \<and> c \<le> 0xDBFF"

definition trailing_surrogate :: "nat \<Rightarrow> bool" where
  "trailing_surrogate c \<longleftrightarrow> 0xDC00 \<le> c \<and> c \<le> 0xDFFF"

definition hex_digit :: "nat \<Rightarrow> nat" where
  "hex_digit d = (if d < 10 then 48 + d else 87 + d)"

definition UnicodeEscape :: "nat \<Rightarrow> jsstring" where
  "UnicodeEscape c =
     [92, 117, hex_digit (c div 4096 mod 16), hex_digit (c div 256 mod 16),
      hex_digit (c div 16 mod 16), hex_digit (c mod 16)]"

definition quote_unit :: "nat \<Rightarrow> jsstring" where
  "quote_unit c =
     (if c = 8 then [92, 98]
      else if c = 9 then [92, 116]
      else if c = 10 then [92, 110]
      else if c = 12 then [92, 102]
      else if c = 13 then [92, 114]
      else if c = 34 then [92, 34]
      else if c = 92 then [92, 92]
      else if c < 32 \<or> leading_surrogate c \<or> trailing_surrogate c then UnicodeEscape c
      else [c])"

fun quote_units :: "jsstring \<Rightarrow> jsstring" where
  "quote_units [] = []"
| "quote_units [c] = quote_unit c"
| "quote_units (c # d # cs) =
     (if leading_surrogate c \<and> trailing_surrogate d then c # d # quote_units cs
      else quote_unit c @ quote_units (d # cs))"

definition QuoteJSONString :: "jsstring \<Rightarrow> jsstring" where
  "QuoteJSONString s = [34] @ quote_units s @ [34]"

fun join_comma :: "jsstring list \<Rightarrow> jsstring" where
  "join_comma [] = []"
| "join_comma [x] = x"
| "join_comma (x # y # ys) = x @ [44] @ join_comma (y # ys)"

fun stringify :: "json \<Rightarrow> jsstring" where
  "stringify (JString s) = QuoteJSONString s"
| "stringify (JArray xs) = [91] @ join_comma (map stringify xs) @ [93]"
| "stringify (JObject kvs) =
     [123] @ join_comma (map (\<lambda>kv. QuoteJSONString (fst kv) @ [58] @ stringify (snd kv)) kvs) @ [125]"

text \<open>
  What \<open>req.write(data)\<close> puts on the wire for a string: its UTF-8 encoding. A
  surrogate pair is one code point of four bytes, a lone surrogate is replaced by
  U+FFFD (three bytes).
\<close>

definition utf8_code_point :: "nat \<Rightarrow> nat list" where
  "utf8_code_point cp =
     (if cp < 0x80 then [cp]
      else if cp < 0x800 then [0xC0 + cp div 64, 0x80 + cp mod 64]
      else if cp < 0x10000 then [0xE0 + cp div 4096, 0x80 + cp div 64 mod 64, 0x80 + cp mod 64]
      else [0xF0 + cp div 262144, 0x80 + cp div 4096 mod 64, 0x80 + cp div 64 mod 64,
            0x80 + cp mod 64])"

definition utf8_unit :: "nat \<Rightarrow> nat list" where
  "utf8_unit c =
     (if leading_surrogate c \<or> trailing_surrogate c then [0xEF, 0xBF, 0xBD]
      else utf8_code_point c)"

fun utf8 :: "jsstring \<Rightarrow> nat list" where
  "utf8 [] = []"
| "utf8 [c] = utf8_unit c"
| "utf8 (c # d # cs) =
     (if leading_surrogate c \<and> trailing_surrogate d
      then utf8_code_point (0x10000 + (c - 0xD800) * 0x400 + (d - 0xDC00)) @ utf8 cs
      else utf8_unit c @ utf8 (d # cs))"


section \<open>Delivery client\<close>

text \<open>
  The properties of the parsed \<open>URL\<close> object. The parser is the platform's; it
  enters the model as the function \<open>new_URL\<close> of the environment, which throws
  (\<open>Inl\<close>) on a string that is not a URL.
\<close>

datatype js_error =
    Error jsstring
  | TypeError jsstring
  | SystemError jsstring

record url =
  url_protocol :: jsstring
  url_hostname :: jsstring
  url_port :: jsstring
  pathname :: jsstring
  search :: jsstring
  url_hash :: jsstring

record environment =
  SLACK_WEBHOOK_URL :: "jsstring option"  \<comment> \<open>\<open>process.env.SLACK_WEBHOOK_URL\<close>: \<open>None\<close> is \<open>undefined\<close>\<close>
  new_URL :: "jsstring \<Rightarrow> js_error + url"

text \<open>
  The \<open>options\<close> handed to \<open>https.request\<close>, the two headers written out, and the
  string passed to \<open>req.write\<close>.
\<close>

record request =
  hostname :: jsstring
  path :: jsstring
  http_method :: jsstring
  Content_Type :: jsstring
  Content_Length :: nat
  written :: jsstring

text \<open>The bytes that follow the headers of a request.\<close>

definition body_bytes :: "request \<Rightarrow> nat list" where
  "body_bytes r = utf8 (written r)"

text \<open>
  What the network answers to one request: a response that ends, with its status
  code and the chunks of its body, each as the string that the \<open>data\<close> handler
  appends to \<open>responseData\<close>, or an \<open>error\<close> event of the request with the error it
  carries.
\<close>

datatype http_outcome =
    Response int "jsstring list"
  | ErrorEvent js_error

datatype console_line =
    Log jsstring
  | LogDate jsstring int
  | ConsoleError jsstring
  | ConsoleErrorWith jsstring js_error

text \<open>
  \<open>sendToSlack\<close> in two parts. The body of the promise executor up to \<open>req.end()\<close>
  builds the request from the parsed URL and the message; the handlers of
  \<open>end\<close> and \<open>error\<close> settle the promise: \<open>Inr\<close> is \<open>resolve\<close>, \<open>Inl\<close> is \<open>reject\<close>,
  next to the lines they print.
\<close>

definition sendToSlack_request :: "'a url_scheme \<Rightarrow> json \<Rightarrow> request" where
  "sendToSlack_request url message =
     (let data = stringify message in
      \<lparr>hostname = url_hostname url,
       path = pathname url,
       http_method = js ''POST'',
       Content_Type = js ''application/json'',
       Content_Length = length data,
       written = data\<rparr>)"

definition sendToSlack_settle :: "http_outcome \<Rightarrow> console_line list \<times> (js_error + jsstring)" where
  "sendToSlack_settle outcome =
     (case outcome of
        Response statusCode chunks \<Rightarrow>
          (let responseData = concat chunks in
           if statusCode = 200
           then ([Log (js ''Successfully sent countdown update to Slack'')], Inr responseData)
           else ([ConsoleError (js ''Slack API error: '' @ ToString statusCode @ js '' - '' @
                    responseData)],
                 Inl (Error (js ''Slack API returned status '' @ ToString statusCode))))
      | ErrorEvent error \<Rightarrow>
          ([ConsoleErrorWith (js ''Error sending to Slack:'') error], Inl error))"


section \<open>Scheduler and driver\<close>

text \<open>
  The state of the process that the script can observe or change:
  \<^item> \<open>countdownInterval\<close>: the repeating timer is armed (\<open>clearInterval\<close> disarms it);
  \<^item> \<open>exited\<close>: the status \<open>process.exit\<close> was called with;
  \<^item> \<open>console\<close>: the lines printed so far;
  \<^item> \<open>requests\<close>: the requests issued so far;
  \<^item> \<open>awaiting\<close>: the calls of \<open>updateCountdown\<close> suspended at
    \<open>await sendToSlack(message)\<close>, each with the index of its request in
    \<open>requests\<close> and its local \<open>timeRemaining\<close>.
\<close>

record process =
  countdownInterval :: bool
  exited :: "int option"
  console :: "console_line list"
  requests :: "request list"
  awaiting :: "(nat \<times> TimeRemaining) list"

text \<open>
  \<open>updateCountdown\<close> runs up to its \<open>await\<close> when it is called and resumes when the
  promise settles. A throw of \<open>new URL\<close> inside the promise executor rejects the
  promise before any request exists, and the \<open>catch\<close> block runs. \<open>new URL(x)\<close>
  converts \<open>x\<close> to a string first, \<open>undefined\<close> to \<open>"undefined"\<close>.
\<close>

definition updateCountdown_begin :: "environment \<Rightarrow> int \<Rightarrow> process \<Rightarrow> process" where
  "updateCountdown_begin env now p =
     (let timeRemaining = getTimeRemaining TARGET_DATE now;
          message = formatCountdownMessage timeRemaining
      in case new_URL env (case SLACK_WEBHOOK_URL env of None \<Rightarrow> js ''undefined'' | Some s \<Rightarrow> s) of
           Inl error \<Rightarrow>
             p\<lparr>console := console p @ [ConsoleErrorWith (js ''Failed to update countdown:'') error]\<rparr>
         | Inr url \<Rightarrow>
             p\<lparr>requests := requests p @ [sendToSlack_request url message],
               awaiting := awaiting p @ [(length (requests p), timeRemaining)]\<rparr>)"

definition updateCountdown_resume :: "TimeRemaining \<Rightarrow> http_outcome \<Rightarrow> process \<Rightarrow> process" where
  "updateCountdown_resume timeRemaining outcome p =
     (case sendToSlack_settle outcome of (printed, settled) \<Rightarrow>
        (case settled of
           Inr responseData \<Rightarrow>
             (if hasStarted timeRemaining
              then p\<lparr>console := console p @ printed @
                        [Log (js ''Event has started! Stopping countdown updates.'')],
                     countdownInterval := False\<rparr>
              else p\<lparr>console := console p @ printed\<rparr>)
         | Inl error \<Rightarrow>
             p\<lparr>console := console p @ printed @
                  [ConsoleErrorWith (js ''Failed to update countdown:'') error]\<rparr>))"

text \<open>
  The top level of the script, run at the instant \<open>now\<close>. \<open>!SLACK_WEBHOOK_URL\<close> holds
  of \<open>undefined\<close> and of the empty string.
\<close>

definition falsy :: "jsstring option \<Rightarrow> bool" where
  "falsy v = (case v of None \<Rightarrow> True | Some s \<Rightarrow> s = [])"

definition main :: "environment \<Rightarrow> int \<Rightarrow> process" where
  "main env now =
     (if falsy (SLACK_WEBHOOK_URL env) then
        \<lparr>countdownInterval = False, exited = Some 1,
         console = [ConsoleError (js ''ERROR: SLACK_WEBHOOK_URL environment variable is not set''),
                    ConsoleError (js ''Please set it to your Slack incoming webhook URL'')],
         requests = [], awaiting = []\<rparr>
      else
        (updateCountdown_begin env now
           \<lparr>countdownInterval = False, exited = None,
            console = [Log (js ''Starting Dreamers in Tech Hackathon countdown bot...''),
                       LogDate (js ''Target date: '') TARGET_DATE,
                       Log (js ''Update interval: '' @ ToString (UPDATE_INTERVAL div 1000) @
                            js '' seconds'')],
            requests = [], awaiting = []\<rparr>)
        \<lparr>countdownInterval := True\<rparr>)"

text \<open>
  What happens after the top level has run: the timer fires (at an instant), a
  request in flight gets its outcome, or the process receives SIGINT. A timer that
  is not armed does not fire, and a process that has exited does nothing. Every
  throw of this model happens inside the \<open>try\<close> block of \<open>updateCountdown\<close>, so the
  handler of \<open>uncaughtException\<close> has nothing to do here and is left out.
\<close>

datatype event =
    Timer int
  | Settled nat http_outcome
  | SIGINT

definition step :: "environment \<Rightarrow> process \<Rightarrow> event \<Rightarrow> process" where
  "step env p e =
     (if exited p \<noteq> None then p
      else case e of
        Timer now \<Rightarrow>
          (if countdownInterval p then updateCountdown_begin env now p else p)
      | Settled i outcome \<Rightarrow>
          (case map_of (awaiting p) i of
             None \<Rightarrow> p
           | Some timeRemaining \<Rightarrow>
               updateCountdown_resume timeRemaining outcome
                 (p\<lparr>awaiting := filter (\<lambda>a. fst a \<noteq> i) (awaiting p)\<rparr>))
      | SIGINT \<Rightarrow>
          p\<lparr>console := console p @ [Log ([10] @ js ''Shutting down countdown bot...'')],
            countdownInterval := False,
            exited := Some 0\<rparr>)"

definition run :: "environment \<Rightarrow> process \<Rightarrow> event list \<Rightarrow> process" where
  "run env p es = foldl (step env) p es"


section \<open>Reference renderings and sample inputs\<close>

text \<open>
  The renderings the description of the formatter speaks of, written from its words
  and compared with the code below: a number in two decimal digits, the time of
  day as \<open>HH:MM:SS\<close>, and the number a decimal numeral stands for.
\<close>

definition spec_two_digits :: "int \<Rightarrow> jsstring" where
  "spec_two_digits n = [48 + nat (n div 10), 48 + nat (n mod 10)]"

definition spec_HH_MM_SS :: "'a TimeRemaining_scheme \<Rightarrow> jsstring" where
  "spec_HH_MM_SS d =
     spec_two_digits (hours d) @ [58] @ spec_two_digits (minutes d) @ [58] @
     spec_two_digits (seconds d)"

definition spec_decimal_value :: "jsstring \<Rightarrow> int" where
  "spec_decimal_value s = foldl (\<lambda>a c. 10 * a + (int c - 48)) 0 s"

text \<open>The invariant of a remaining duration, as the data model states it.\<close>

definition RemainingDuration :: "'a TimeRemaining_scheme \<Rightarrow> bool" where
  "RemainingDuration d \<longleftrightarrow>
     0 \<le> days d \<and> 0 \<le> hours d \<and> hours d \<le> 23 \<and> 0 \<le> minutes d \<and> minutes d \<le> 59 \<and>
     0 \<le> seconds d \<and> seconds d \<le> 59 \<and>
     (hasStarted d \<longrightarrow> days d = 0 \<and> hours d = 0 \<and> minutes d = 0 \<and> seconds d = 0)"

text \<open>
  A webhook address with a query string, its parsed form, and environments holding
  it, holding the empty string, and holding nothing.
\<close>

definition sample_address :: jsstring where
  "sample_address = js ''https://hooks.slack.com/services/T0/B0/XYZ?channel=general''"

definition sample_url :: url where
  "sample_url =
     \<lparr>url_protocol = js ''https:'', url_hostname = js ''hooks.slack.com'', url_port = [],
      pathname = js ''/services/T0/B0/XYZ'', search = js ''?channel=general'', url_hash = []\<rparr>"

definition sample_parser :: "jsstring \<Rightarrow> js_error + url" where
  "sample_parser s =
     (if s = sample_address then Inr sample_url else Inl (TypeError (js ''Invalid URL'')))"

definition sample_env :: environment where
  "sample_env = \<lparr>SLACK_WEBHOOK_URL = Some sample_address, new_URL = sample_parser\<rparr>"

definition empty_env :: environment where
  "empty_env = \<lparr>SLACK_WEBHOOK_URL = Some [], new_URL = sample_parser\<rparr>"

definition unset_env :: environment where
  "unset_env = \<lparr>SLACK_WEBHOOK_URL = None, new_URL = sample_parser\<rparr>"


section \<open>The time calculator\<close>

subsection \<open>Arithmetic of the decomposition\<close>

lemma mod_div_unit:
  fixes d :: int
  assumes "0 < a" "0 \<le> b"
  shows "(d mod (a * b)) div a = (d div a) mod b"
proof -
  have "d mod (a * b) = a * (d div a mod b) + d mod a"
    using assms by (simp add: zmod_zmult2_eq)
  moreover have "(a * (d div a mod b) + d mod a) div a = d div a mod b"
    using assms by simp
  ultimately show ?thesis by simp
qed

lemma days_of_seconds:
  fixes d :: int
  shows "d div 86400000 = d div 1000 div 86400"
proof -
  have "d div (1000 * 86400) = d div 1000 div 86400"
    by (rule zdiv_zmult2_eq) simp
  then show ?thesis by simp
qed

lemma hours_of_seconds:
  fixes d :: int
  shows "(d mod 86400000) div 3600000 = (d div 1000 div 3600) mod 24"
proof -
  have "(d mod (3600000 * 24)) div 3600000 = (d div 3600000) mod 24"
    by (rule mod_div_unit) simp_all
  moreover have "d div (1000 * 3600) = d div 1000 div 3600"
    by (rule zdiv_zmult2_eq) simp
  ultimately show ?thesis by simp
qed

lemma minutes_of_seconds:
  fixes d :: int
  shows "(d mod 3600000) div 60000 = (d div 1000 div 60) mod 60"
proof -
  have "(d mod (60000 * 60)) div 60000 = (d div 60000) mod 60"
    by (rule mod_div_unit) simp_all
  moreover have "d div (1000 * 60) = d div 1000 div 60"
    by (rule zdiv_zmult2_eq) simp
  ultimately show ?thesis by simp
qed

lemma seconds_of_seconds:
  fixes d :: int
  shows "(d mod 60000) div 1000 = (d div 1000) mod 60"
proof -
  have "(d mod (1000 * 60)) div 1000 = (d div 1000) mod 60"
    by (rule mod_div_unit) simp_all
  then show ?thesis by simp
qed

lemma seconds_split:
  fixes s :: int
  shows "(s div 86400) * 86400 + ((s div 3600) mod 24) * 3600 + ((s div 60) mod 60) * 60
           + s mod 60 = s"
proof -
  define m where "m = s div 60"
  define h where "h = m div 60"
  define dd where "dd = h div 24"
  have a: "s div (60 * 60) = s div 60 div 60" by (rule zdiv_zmult2_eq) simp
  have b: "s div (60 * 60 * 24) = s div 60 div 60 div 24"
    by (simp add: zdiv_zmult2_eq)
  have 1: "s mod 60 = s - 60 * m" unfolding m_def by (rule minus_mult_div_eq_mod [symmetric])
  have 2: "m mod 60 = m - 60 * h" unfolding h_def by (rule minus_mult_div_eq_mod [symmetric])
  have 3: "h mod 24 = h - 24 * dd" unfolding dd_def by (rule minus_mult_div_eq_mod [symmetric])
  have 4: "s div 3600 = h" using a by (simp add: m_def h_def)
  have 5: "s div 86400 = dd" using b by (simp add: m_def h_def dd_def)
  have 6: "s div 60 = m" by (simp add: m_def)
  show ?thesis unfolding 4 5 6 1 2 3 by (simp add: algebra_simps)
qed

lemma decomposition_sum:
  fixes d :: int
  shows "(d div 86400000) * 86400000 + ((d mod 86400000) div 3600000) * 3600000
           + ((d mod 3600000) div 60000) * 60000 + ((d mod 60000) div 1000) * 1000
         = (d div 1000) * 1000"
proof -
  have "(d div 86400000) * 86400000 + ((d mod 86400000) div 3600000) * 3600000
          + ((d mod 3600000) div 60000) * 60000 + ((d mod 60000) div 1000) * 1000
        = ((d div 1000 div 86400) * 86400 + ((d div 1000 div 3600) mod 24) * 3600
            + ((d div 1000 div 60) mod 60) * 60 + (d div 1000) mod 60) * 1000"
    unfolding hours_of_seconds minutes_of_seconds seconds_of_seconds days_of_seconds
    by (simp add: algebra_simps)
  then show ?thesis by (simp only: seconds_split)
qed

lemma getTimeRemaining_positive:
  assumes "now < target"
  shows "getTimeRemaining target now =
           \<lparr>days = (target - now) div 86400000,
            hours = ((target - now) mod 86400000) div 3600000,
            minutes = ((target - now) mod 3600000) div 60000,
            seconds = ((target - now) mod 60000) div 1000,
            hasStarted = False\<rparr>"
  using assms by (simp add: getTimeRemaining_def Let_def)

subsection \<open>Claims about the time calculator\<close>

text \<open>
  Claim C1. Whenever \<open>target - now \<le> 0\<close>, \<open>getTimeRemaining\<close> returns zero days, hours,
  minutes and seconds with \<open>hasStarted\<close> true; hence whenever \<open>hasStarted\<close> is true
  the four numbers are zero; and one millisecond before the target it returns
  \<open>hasStarted\<close> false with the four numbers zero.
\<close>

theorem getTimeRemaining_reached:
  "(target - now \<le> 0 \<longrightarrow>
      getTimeRemaining target now =
        \<lparr>days = 0, hours = 0, minutes = 0, seconds = 0, hasStarted = True\<rparr>)
   \<and> (hasStarted (getTimeRemaining target now) \<longrightarrow>
        days (getTimeRemaining target now) = 0 \<and> hours (getTimeRemaining target now) = 0
        \<and> minutes (getTimeRemaining target now) = 0
        \<and> seconds (getTimeRemaining target now) = 0)
   \<and> getTimeRemaining target (target - 1) =
        \<lparr>days = 0, hours = 0, minutes = 0, seconds = 0, hasStarted = False\<rparr>"
  by (simp add: getTimeRemaining_def Let_def)

theorem getTimeRemaining_reached_witness:
  "TARGET_DATE - (TARGET_DATE + 1000) \<le> 0
   \<and> getTimeRemaining TARGET_DATE (TARGET_DATE + 1000) =
        \<lparr>days = 0, hours = 0, minutes = 0, seconds = 0, hasStarted = True\<rparr>
   \<and> hasStarted (getTimeRemaining TARGET_DATE (TARGET_DATE + 1000))
   \<and> days (getTimeRemaining TARGET_DATE (TARGET_DATE + 1000)) = 0
   \<and> getTimeRemaining TARGET_DATE (TARGET_DATE - 1) =
        \<lparr>days = 0, hours = 0, minutes = 0, seconds = 0, hasStarted = False\<rparr>"
proof -
  have h: "TARGET_DATE - (TARGET_DATE + 1000) \<le> 0" by simp
  show ?thesis
    using h getTimeRemaining_reached [of TARGET_DATE "TARGET_DATE + 1000"] by simp
qed

text \<open>
  Claim C2. Whenever \<open>now < target\<close>, with \<open>\<Delta> = target - now\<close> milliseconds,
  \<open>getTimeRemaining\<close> returns \<open>hasStarted\<close> false, days \<open>\<Delta> div 86400000\<close>, hours
  \<open>(\<Delta> mod 86400000) div 3600000\<close>, minutes \<open>(\<Delta> mod 3600000) div 60000\<close> and seconds
  \<open>(\<Delta> mod 60000) div 1000\<close>; hours lie in 0..23, minutes and seconds in 0..59, days
  are not negative, and the four numbers weighted by their lengths in milliseconds
  add up to \<open>\<Delta>\<close> truncated to whole seconds.
\<close>

theorem getTimeRemaining_decomposition:
  assumes "now < target"
  shows "hasStarted (getTimeRemaining target now) = False
    \<and> days (getTimeRemaining target now) = (target - now) div 86400000
    \<and> hours (getTimeRemaining target now) = ((target - now) mod 86400000) div 3600000
    \<and> minutes (getTimeRemaining target now) = ((target - now) mod 3600000) div 60000
    \<and> seconds (getTimeRemaining target now) = ((target - now) mod 60000) div 1000
    \<and> 0 \<le> hours (getTimeRemaining target now) \<and> hours (getTimeRemaining target now) \<le> 23
    \<and> 0 \<le> minutes (getTimeRemaining target now) \<and> minutes (getTimeRemaining target now) \<le> 59
    \<and> 0 \<le> seconds (getTimeRemaining target now) \<and> seconds (getTimeRemaining target now) \<le> 59
    \<and> 0 \<le> days (getTimeRemaining target now)
    \<and> days (getTimeRemaining target now) * 86400000
        + hours (getTimeRemaining target now) * 3600000
        + minutes (getTimeRemaining target now) * 60000
        + seconds (getTimeRemaining target now) * 1000
        = ((target - now) div 1000) * 1000"
proof -
  define d where "d = target - now"
  define dys where "dys = d div 86400000"
  define hrs where "hrs = (d mod 86400000) div 3600000"
  define mns where "mns = (d mod 3600000) div 60000"
  define scs where "scs = (d mod 60000) div 1000"
  have pos: "0 < d" using assms by (simp add: d_def)
  have r: "getTimeRemaining target now =
             \<lparr>days = dys, hours = hrs, minutes = mns, seconds = scs, hasStarted = False\<rparr>"
    unfolding dys_def hrs_def mns_def scs_def d_def
    by (rule getTimeRemaining_positive [OF assms])
  have h: "0 \<le> hrs \<and> hrs \<le> 23"
    unfolding hrs_def hours_of_seconds by simp
  have m: "0 \<le> mns \<and> mns \<le> 59"
    unfolding mns_def minutes_of_seconds by simp
  have s: "0 \<le> scs \<and> scs \<le> 59"
    unfolding scs_def seconds_of_seconds by simp
  have dd: "0 \<le> dys"
    unfolding dys_def using pos by (intro pos_imp_zdiv_nonneg_iff [THEN iffD2]) simp_all
  have sum: "dys * 86400000 + hrs * 3600000 + mns * 60000 + scs * 1000 = (d div 1000) * 1000"
    unfolding dys_def hrs_def mns_def scs_def by (rule decomposition_sum)
  have sel: "hasStarted (getTimeRemaining target now) = False"
    "days (getTimeRemaining target now) = dys" "hours (getTimeRemaining target now) = hrs"
    "minutes (getTimeRemaining target now) = mns" "seconds (getTimeRemaining target now) = scs"
    unfolding r by simp_all
  show ?thesis
    unfolding sel d_def [symmetric]
    using h m s dd sum
    unfolding dys_def hrs_def mns_def scs_def
    by blast
qed

theorem getTimeRemaining_decomposition_witness:
  "TARGET_DATE - 183845999 < TARGET_DATE
   \<and> hasStarted (getTimeRemaining TARGET_DATE (TARGET_DATE - 183845999)) = False
   \<and> days (getTimeRemaining TARGET_DATE (TARGET_DATE - 183845999)) = 2
   \<and> hours (getTimeRemaining TARGET_DATE (TARGET_DATE - 183845999)) = 3
   \<and> minutes (getTimeRemaining TARGET_DATE (TARGET_DATE - 183845999)) = 4
   \<and> seconds (getTimeRemaining TARGET_DATE (TARGET_DATE - 183845999)) = 5
   \<and> days (getTimeRemaining TARGET_DATE (TARGET_DATE - 183845999)) * 86400000
       + hours (getTimeRemaining TARGET_DATE (TARGET_DATE - 183845999)) * 3600000
       + minutes (getTimeRemaining TARGET_DATE (TARGET_DATE - 183845999)) * 60000
       + seconds (getTimeRemaining TARGET_DATE (TARGET_DATE - 183845999)) * 1000
       = 183845000"
proof -
  have h: "TARGET_DATE - 183845999 < TARGET_DATE" by simp
  have d: "TARGET_DATE - (TARGET_DATE - 183845999) = 183845999" by simp
  show ?thesis
    using h getTimeRemaining_decomposition [OF h] unfolding d by simp
qed

section \<open>The message formatter\<close>

subsection \<open>Numbers as text\<close>


lemma digits_small: "n < 10 \<Longrightarrow> digits n = [48 + n]"
  by (simp add: digits.simps)

lemma digits_large: "\<not> n < 10 \<Longrightarrow> digits n = digits (n div 10) @ [48 + n mod 10]"
  by (subst digits.simps) simp

lemma digits_two: assumes "10 \<le> n" "n < 100"
  shows "digits n = [48 + n div 10, 48 + n mod 10]"
proof -
  have "n div 10 < 10" using assms by simp
  then show ?thesis using assms by (simp add: digits_large digits_small)
qed

lemma padStart_two_digits:
  assumes "0 \<le> n" "n \<le> 99"
  shows "padStart (ToString n) 2 (js ''0'') = spec_two_digits n"
proof (cases "n < 10")
  case True
  then have "nat n < 10" "n div 10 = 0" "n mod 10 = n" using assms by simp_all
  then show ?thesis using assms
    by (simp add: padStart_def ToString_def digits_small spec_two_digits_def js_def)
next
  case False
  then have a: "10 \<le> nat n" "nat n < 100" using assms by simp_all
  have "nat n div 10 = nat (n div 10)" "nat n mod 10 = nat (n mod 10)"
    using assms by (simp_all add: nat_div_distrib nat_mod_distrib)
  then show ?thesis using assms False
    by (simp add: padStart_def ToString_def digits_two [OF a] spec_two_digits_def)
qed

lemma formattedTime_spec:
  assumes "RemainingDuration d"
  shows "formattedTime d = spec_HH_MM_SS d"
proof -
  have "padStart (ToString (hours d)) 2 (js ''0'') = spec_two_digits (hours d)"
    using assms by (intro padStart_two_digits) (simp_all add: RemainingDuration_def)
  moreover have "padStart (ToString (minutes d)) 2 (js ''0'') = spec_two_digits (minutes d)"
    using assms by (intro padStart_two_digits) (simp_all add: RemainingDuration_def)
  moreover have "padStart (ToString (seconds d)) 2 (js ''0'') = spec_two_digits (seconds d)"
    using assms by (intro padStart_two_digits) (simp_all add: RemainingDuration_def)
  moreover have "js '':'' = [58]" by (simp add: js_def)
  ultimately show ?thesis by (simp add: formattedTime_def spec_HH_MM_SS_def)
qed

lemma decimal_value_snoc:
  "spec_decimal_value (s @ [c]) = 10 * spec_decimal_value s + (int c - 48)"
  by (simp add: spec_decimal_value_def)

lemma decimal_value_digits: "spec_decimal_value (digits n) = int n"
proof (induction n rule: digits.induct)
  case (1 n)
  show ?case
  proof (cases "n < 10")
    case True
    then show ?thesis by (simp add: digits_small spec_decimal_value_def)
  next
    case False
    have "int n = int (10 * (n div 10) + n mod 10)" by simp
    then have "int n = 10 * int (n div 10) + int (n mod 10)" by (simp only: of_nat_add of_nat_mult of_nat_numeral)
    then show ?thesis using False 1 by (simp add: digits_large decimal_value_snoc)
  qed
qed

lemma decimal_value_ToString: "0 \<le> n \<Longrightarrow> spec_decimal_value (ToString n) = n"
  by (simp add: ToString_def decimal_value_digits)

lemma digits_are_digits: "c \<in> set (digits n) \<Longrightarrow> 48 \<le> c \<and> c \<le> 57"
proof (induction n rule: digits.induct)
  case (1 n)
  show ?case
  proof (cases "n < 10")
    case True
    then show ?thesis using "1.prems" by (simp add: digits_small)
  next
    case False
    then show ?thesis using 1 by (auto simp add: digits_large)
  qed
qed


lemma js_time_literal: "js ''03:04:05'' = [48, 51, 58, 48, 52, 58, 48, 53]"
  by (simp add: js_def)

subsection \<open>The durations the calculator returns\<close>

text \<open>
  Whatever the clock shows, as long as the difference to the target is below
  \<open>2 ^ 53\<close> (as it is for every instant a \<open>Date\<close> can hold and the target of this
  program), the record \<open>getTimeRemaining\<close> returns satisfies the invariant of a
  remaining duration and its days are a safe integer.
\<close>

lemma getTimeRemaining_in_range:
  assumes "target - now < 2 ^ 53"
  shows "RemainingDuration (getTimeRemaining target now)
    \<and> isSafeInteger (days (getTimeRemaining target now))"
proof (cases "now < target")
  case False
  then show ?thesis
    by (simp add: getTimeRemaining_def RemainingDuration_def isSafeInteger_def)
next
  case True
  define d where "d = target - now"
  define dys where "dys = d div 86400000"
  define hrs where "hrs = (d mod 86400000) div 3600000"
  define mns where "mns = (d mod 3600000) div 60000"
  define scs where "scs = (d mod 60000) div 1000"
  have pos: "0 < d" using True by (simp add: d_def)
  have r: "getTimeRemaining target now =
             \<lparr>days = dys, hours = hrs, minutes = mns, seconds = scs, hasStarted = False\<rparr>"
    unfolding dys_def hrs_def mns_def scs_def d_def
    by (rule getTimeRemaining_positive [OF True])
  have h: "0 \<le> hrs \<and> hrs \<le> 23"
    unfolding hrs_def hours_of_seconds by simp
  have m: "0 \<le> mns \<and> mns \<le> 59"
    unfolding mns_def minutes_of_seconds by simp
  have s: "0 \<le> scs \<and> scs \<le> 59"
    unfolding scs_def seconds_of_seconds by simp
  have lo: "0 \<le> dys"
    unfolding dys_def using pos by (intro pos_imp_zdiv_nonneg_iff [THEN iffD2]) simp_all
  define rest where "rest = d mod 86400000"
  have split: "d = 86400000 * dys + rest"
    unfolding dys_def rest_def by (rule mult_div_mod_eq [symmetric])
  have "0 \<le> rest"
    unfolding rest_def by simp
  then have "dys \<le> d"
    using split lo by linarith
  then have hi: "dys < 2 ^ 53"
    using assms by (simp add: d_def)
  have neg: "- (2 ^ 53) < (0::int)" by simp
  have safe: "isSafeInteger dys"
    unfolding isSafeInteger_def using lo hi neg by linarith
  show ?thesis
    unfolding r using h m s lo safe by (simp add: RemainingDuration_def)
qed

subsection \<open>Claims about the formatter\<close>

text \<open>
  Claim C3. For every remaining duration \<open>d\<close> (days not negative, hours in 0..23,
  minutes and seconds in 0..59, all zero when started) whose days are a safe
  integer, as the days of every duration the calculator returns are: when
  \<open>hasStarted\<close> holds,
  \<open>formatCountdownMessage\<close> returns one block, the celebratory section, and nothing
  else; otherwise it returns four blocks: the fixed header, the introductory
  section, a section of two fields, the days as a decimal numeral (digits only, of
  value \<open>days d\<close>) and the time of day as \<open>HH:MM:SS\<close> with two digits each, and the
  fixed context line naming the date in three time zones. For days 2, hours 3,
  minutes 4, seconds 5 the time string is \<open>03:04:05\<close>.
\<close>

theorem formatCountdownMessage_layout:
  assumes "RemainingDuration d" and "isSafeInteger (days d)"
  shows "(hasStarted d \<longrightarrow>
            formatCountdownMessage d =
              JObject [(js ''blocks'', JArray [
                JObject [(js ''type'', JString (js ''section'')),
                         (js ''text'', JObject [
                            (js ''type'', JString (js ''mrkdwn'')),
                            (js ''text'', JString (party_popper @
                               js '' *The Dreamers in Tech Hackathon has begun!* '' @
                               party_popper))])]])])
       \<and> (\<not> hasStarted d \<longrightarrow>
            formatCountdownMessage d =
              JObject [(js ''blocks'', JArray [
                JObject [(js ''type'', JString (js ''header'')),
                         (js ''text'', JObject [
                            (js ''type'', JString (js ''plain_text'')),
                            (js ''text'', JString (rocket @
                               js '' Dreamers in Tech Hackathon Countdown''))])],
                JObject [(js ''type'', JString (js ''section'')),
                         (js ''text'', JObject [
                            (js ''type'', JString (js ''mrkdwn'')),
                            (js ''text'', JString (js ''*Kick-off Ceremony begins in:*''))])],
                JObject [(js ''type'', JString (js ''section'')),
                         (js ''fields'', JArray [
                            JObject [(js ''type'', JString (js ''mrkdwn'')),
                                     (js ''text'', JString (js ''*Days*'' @ [10] @
                                        ToString (days d)))],
                            JObject [(js ''type'', JString (js ''mrkdwn'')),
                                     (js ''text'', JString (js ''*Time (HH:MM:SS)*'' @ [10] @
                                        spec_HH_MM_SS d))]])],
                JObject [(js ''type'', JString (js ''context'')),
                         (js ''elements'', JArray [
                            JObject [(js ''type'', JString (js ''mrkdwn'')),
                                     (js ''text'', JString (calendar @
                                        js '' Friday, July 18 '' @ bullet @
                                        js '' 5pm PST / 7pm CST / 8pm EST''))]])]])])
       \<and> spec_decimal_value (ToString (days d)) = days d
       \<and> (\<forall>c \<in> set (ToString (days d)). 48 \<le> c \<and> c \<le> 57)
       \<and> length (spec_HH_MM_SS d) = 8
       \<and> formattedTime \<lparr>days = 2, hours = 3, minutes = 4, seconds = 5, hasStarted = False\<rparr>
           = js ''03:04:05''"
proof -
  have t: "formattedTime d = spec_HH_MM_SS d"
    by (rule formattedTime_spec [OF assms(1)])
  have nonneg: "0 \<le> days d"
    using assms by (simp add: RemainingDuration_def)
  have v: "spec_decimal_value (ToString (days d)) = days d"
    by (rule decimal_value_ToString [OF nonneg])
  have g: "\<forall>c \<in> set (ToString (days d)). 48 \<le> c \<and> c \<le> 57"
    using nonneg digits_are_digits by (simp add: ToString_def)
  have l: "length (spec_HH_MM_SS d) = 8"
    by (simp add: spec_HH_MM_SS_def spec_two_digits_def)
  have e: "formattedTime \<lparr>days = 2, hours = 3, minutes = 4, seconds = 5, hasStarted = False\<rparr>
             = js ''03:04:05''"
    unfolding js_time_literal
    by (simp add: formattedTime_def padStart_def ToString_def digits_small js_def)
  have started: "hasStarted d \<longrightarrow>
            formatCountdownMessage d =
              JObject [(js ''blocks'', JArray [
                JObject [(js ''type'', JString (js ''section'')),
                         (js ''text'', JObject [
                            (js ''type'', JString (js ''mrkdwn'')),
                            (js ''text'', JString (party_popper @
                               js '' *The Dreamers in Tech Hackathon has begun!* '' @
                               party_popper))])]])]"
    by (simp add: formatCountdownMessage_def)
  have counting: "\<not> hasStarted d \<longrightarrow>
            formatCountdownMessage d =
              JObject [(js ''blocks'', JArray [
                JObject [(js ''type'', JString (js ''header'')),
                         (js ''text'', JObject [
                            (js ''type'', JString (js ''plain_text'')),
                            (js ''text'', JString (rocket @
                               js '' Dreamers in Tech Hackathon Countdown''))])],
                JObject [(js ''type'', JString (js ''section'')),
                         (js ''text'', JObject [
                            (js ''type'', JString (js ''mrkdwn'')),
                            (js ''text'', JString (js ''*Kick-off Ceremony begins in:*''))])],
                JObject [(js ''type'', JString (js ''section'')),
                         (js ''fields'', JArray [
                            JObject [(js ''type'', JString (js ''mrkdwn'')),
                                     (js ''text'', JString (js ''*Days*'' @ [10] @
                                        ToString (days d)))],
                            JObject [(js ''type'', JString (js ''mrkdwn'')),
                                     (js ''text'', JString (js ''*Time (HH:MM:SS)*'' @ [10] @
                                        spec_HH_MM_SS d))]])],
                JObject [(js ''type'', JString (js ''context'')),
                         (js ''elements'', JArray [
                            JObject [(js ''type'', JString (js ''mrkdwn'')),
                                     (js ''text'', JString (calendar @
                                        js '' Friday, July 18 '' @ bullet @
                                        js '' 5pm PST / 7pm CST / 8pm EST''))]])]])]"
    unfolding t [symmetric] by (simp add: formatCountdownMessage_def)
  from started counting v g l e show ?thesis by blast
qed

theorem formatCountdownMessage_layout_witness:
  "RemainingDuration \<lparr>days = 0, hours = 0, minutes = 0, seconds = 0, hasStarted = True\<rparr>
   \<and> isSafeInteger (days \<lparr>days = 0, hours = 0, minutes = 0, seconds = 0, hasStarted = True\<rparr>)
   \<and> isSafeInteger (days \<lparr>days = 12, hours = 3, minutes = 4, seconds = 5, hasStarted = False\<rparr>)
   \<and> formatCountdownMessage \<lparr>days = 0, hours = 0, minutes = 0, seconds = 0, hasStarted = True\<rparr> =
       JObject [(js ''blocks'', JArray [
         JObject [(js ''type'', JString (js ''section'')),
                  (js ''text'', JObject [
                     (js ''type'', JString (js ''mrkdwn'')),
                     (js ''text'', JString (party_popper @
                        js '' *The Dreamers in Tech Hackathon has begun!* '' @
                        party_popper))])]])]
   \<and> RemainingDuration \<lparr>days = 12, hours = 3, minutes = 4, seconds = 5, hasStarted = False\<rparr>
   \<and> formatCountdownMessage \<lparr>days = 12, hours = 3, minutes = 4, seconds = 5, hasStarted = False\<rparr> =
       JObject [(js ''blocks'', JArray [
         JObject [(js ''type'', JString (js ''header'')),
                  (js ''text'', JObject [
                     (js ''type'', JString (js ''plain_text'')),
                     (js ''text'', JString (rocket @
                        js '' Dreamers in Tech Hackathon Countdown''))])],
         JObject [(js ''type'', JString (js ''section'')),
                  (js ''text'', JObject [
                     (js ''type'', JString (js ''mrkdwn'')),
                     (js ''text'', JString (js ''*Kick-off Ceremony begins in:*''))])],
         JObject [(js ''type'', JString (js ''section'')),
                  (js ''fields'', JArray [
                     JObject [(js ''type'', JString (js ''mrkdwn'')),
                              (js ''text'', JString (js ''*Days*'' @ [10] @ js ''12''))],
                     JObject [(js ''type'', JString (js ''mrkdwn'')),
                              (js ''text'', JString (js ''*Time (HH:MM:SS)*'' @ [10] @
                                 js ''03:04:05''))]])],
         JObject [(js ''type'', JString (js ''context'')),
                  (js ''elements'', JArray [
                     JObject [(js ''type'', JString (js ''mrkdwn'')),
                              (js ''text'', JString (calendar @
                                 js '' Friday, July 18 '' @ bullet @
                                 js '' 5pm PST / 7pm CST / 8pm EST''))]])]])]"
proof -
  have h: "RemainingDuration \<lparr>days = 12, hours = 3, minutes = 4, seconds = 5, hasStarted = False\<rparr>"
    by (simp add: RemainingDuration_def)
  have h0: "RemainingDuration \<lparr>days = 0, hours = 0, minutes = 0, seconds = 0, hasStarted = True\<rparr>"
    by (simp add: RemainingDuration_def)
  have k: "isSafeInteger (days \<lparr>days = 12, hours = 3, minutes = 4, seconds = 5, hasStarted = False\<rparr>)"
    by (simp add: isSafeInteger_def)
  have k0: "isSafeInteger (days \<lparr>days = 0, hours = 0, minutes = 0, seconds = 0, hasStarted = True\<rparr>)"
    by (simp add: isSafeInteger_def)
  have d: "ToString 12 = js ''12''"
    by (simp add: ToString_def digits.simps js_def)
  have t: "spec_HH_MM_SS \<lparr>days = 12, hours = 3, minutes = 4, seconds = 5, hasStarted = False\<rparr>
             = js ''03:04:05''"
    by (simp add: spec_HH_MM_SS_def spec_two_digits_def js_def)
  show ?thesis
    using h h0 k k0 formatCountdownMessage_layout [OF h k] formatCountdownMessage_layout [OF h0 k0]
    by (simp add: d t)
qed


section \<open>The delivery client\<close>

subsection \<open>The status code in the rejection\<close>

lemma digits_inject:
  assumes "digits m = digits n"
  shows "m = n"
proof -
  have "int m = spec_decimal_value (digits m)" by (simp add: decimal_value_digits)
  also have "\<dots> = spec_decimal_value (digits n)" by (simp only: assms)
  also have "\<dots> = int n" by (simp add: decimal_value_digits)
  finally show ?thesis by simp
qed

lemma digits_no_minus: "45 # s \<noteq> digits n"
proof
  assume "45 # s = digits n"
  then have "45 \<in> set (digits n)" by (metis list.set_intros(1))
  then show False using digits_are_digits [of 45 n] by simp
qed

lemma ToString_inject:
  assumes "ToString a = ToString b"
  shows "a = b"
proof (cases "a < 0")
  case True
  note a = this
  show ?thesis
  proof (cases "b < 0")
    case True
    then have "digits (nat (- a)) = digits (nat (- b))"
      using a assms by (simp add: ToString_def)
    then have "nat (- a) = nat (- b)" by (rule digits_inject)
    then show ?thesis using a True by simp
  next
    case False
    then have "45 # digits (nat (- a)) = digits (nat b)"
      using a assms by (simp add: ToString_def)
    then show ?thesis using digits_no_minus by blast
  qed
next
  case False
  note a = this
  show ?thesis
  proof (cases "b < 0")
    case True
    then have "45 # digits (nat (- b)) = digits (nat a)"
      using a assms by (simp add: ToString_def)
    then show ?thesis using digits_no_minus by blast
  next
    case False
    then have "digits (nat a) = digits (nat b)"
      using a assms by (simp add: ToString_def)
    then have "nat a = nat b" by (rule digits_inject)
    then show ?thesis using a False by simp
  qed
qed

lemma sendToSlack_settle_ok:
  "sendToSlack_settle (Response 200 chunks) =
     ([Log (js ''Successfully sent countdown update to Slack'')], Inr (concat chunks))"
  by (simp add: sendToSlack_settle_def)

lemma sendToSlack_settle_rejected:
  "statusCode \<noteq> 200 \<Longrightarrow>
   sendToSlack_settle (Response statusCode chunks) =
     ([ConsoleError (js ''Slack API error: '' @ ToString statusCode @ js '' - '' @ concat chunks)],
      Inl (Error (js ''Slack API returned status '' @ ToString statusCode)))"
  by (simp add: sendToSlack_settle_def)

lemma sendToSlack_settle_error:
  "sendToSlack_settle (ErrorEvent error) =
     ([ConsoleErrorWith (js ''Error sending to Slack:'') error], Inl error)"
  by (simp add: sendToSlack_settle_def)

subsection \<open>Claims about the delivery client\<close>

text \<open>
  Claim C4, as stated: a response with a status code other than 200 fails with an
  error that carries the status code and the response body. It fails on the code:
  two responses with status 429 and different bodies are rejected with the same
  error, whose only content is the message naming the status.
\<close>

theorem sendToSlack_rejection_counterexample:
  "snd (sendToSlack_settle (Response 429 [js ''rate_limited''])) =
     Inl (Error (js ''Slack API returned status 429''))
   \<and> snd (sendToSlack_settle (Response 429 [js ''retry later''])) =
     Inl (Error (js ''Slack API returned status 429''))
   \<and> concat [js ''rate_limited''] \<noteq> concat [js ''retry later'']"
  by (simp add: sendToSlack_settle_def ToString_def digits.simps js_def)

text \<open>
  Claim C4, amended. A response with status 200 resolves with the response body
  (the chunks received, concatenated). A response with any other status rejects
  with an \<open>Error\<close> whose message is \<open>Slack API returned status\<close> followed by the
  status code, from which the code can be read back; the body is not in the error,
  it is printed in the console line \<open>Slack API error: <status> - <body>\<close>. An \<open>error\<close>
  event of the request rejects with the very error of the event.
\<close>

theorem sendToSlack_settles:
  "(statusCode = 200 \<longrightarrow>
      snd (sendToSlack_settle (Response statusCode chunks)) = Inr (concat chunks))
   \<and> (statusCode \<noteq> 200 \<longrightarrow>
        sendToSlack_settle (Response statusCode chunks) =
          ([ConsoleError (js ''Slack API error: '' @ ToString statusCode @ js '' - '' @
              concat chunks)],
           Inl (Error (js ''Slack API returned status '' @ ToString statusCode))))
   \<and> (statusCode \<noteq> 200 \<and> statusCode' \<noteq> 200 \<and>
        snd (sendToSlack_settle (Response statusCode chunks)) =
        snd (sendToSlack_settle (Response statusCode' chunks')) \<longrightarrow> statusCode = statusCode')
   \<and> snd (sendToSlack_settle (ErrorEvent error)) = Inl error"
proof -
  have ok: "statusCode = 200 \<longrightarrow>
      snd (sendToSlack_settle (Response statusCode chunks)) = Inr (concat chunks)"
    by (simp add: sendToSlack_settle_ok)
  have rej: "statusCode \<noteq> 200 \<longrightarrow>
        sendToSlack_settle (Response statusCode chunks) =
          ([ConsoleError (js ''Slack API error: '' @ ToString statusCode @ js '' - '' @
              concat chunks)],
           Inl (Error (js ''Slack API returned status '' @ ToString statusCode)))"
    by (simp add: sendToSlack_settle_rejected)
  have inj: "statusCode \<noteq> 200 \<and> statusCode' \<noteq> 200 \<and>
        snd (sendToSlack_settle (Response statusCode chunks)) =
        snd (sendToSlack_settle (Response statusCode' chunks')) \<longrightarrow> statusCode = statusCode'"
    by (auto simp add: sendToSlack_settle_rejected dest: ToString_inject)
  have err: "snd (sendToSlack_settle (ErrorEvent error)) = Inl error"
    by (simp add: sendToSlack_settle_error)
  from ok rej inj err show ?thesis by blast
qed

theorem sendToSlack_settles_witness:
  "snd (sendToSlack_settle (Response 200 [js ''o'', js ''k''])) = Inr (js ''ok'')
   \<and> (429::int) \<noteq> 200
   \<and> sendToSlack_settle (Response 429 [js ''rate_'', js ''limited'']) =
       ([ConsoleError (js ''Slack API error: 429 - rate_limited'')],
        Inl (Error (js ''Slack API returned status 429'')))
   \<and> snd (sendToSlack_settle (ErrorEvent (SystemError (js ''ECONNREFUSED'')))) =
       Inl (SystemError (js ''ECONNREFUSED''))"
proof -
  have s: "ToString 429 = js ''429''"
    by (simp add: ToString_def digits.simps js_def)
  have a: "snd (sendToSlack_settle (Response 200 [js ''o'', js ''k''])) = Inr (js ''ok'')"
    using sendToSlack_settles [of 200 "[js ''o'', js ''k'']"] by (simp add: js_def)
  have b: "sendToSlack_settle (Response 429 [js ''rate_'', js ''limited'']) =
       ([ConsoleError (js ''Slack API error: 429 - rate_limited'')],
        Inl (Error (js ''Slack API returned status 429'')))"
    using sendToSlack_settles [of 429 "[js ''rate_'', js ''limited'']"]
    by (simp add: s js_def)
  have c: "snd (sendToSlack_settle (ErrorEvent (SystemError (js ''ECONNREFUSED'')))) =
       Inl (SystemError (js ''ECONNREFUSED''))"
    using sendToSlack_settles [of 200 "[]" 200 "[]" "SystemError (js ''ECONNREFUSED'')"] by simp
  from a b c show ?thesis by simp
qed

text \<open>
  Claim C5. The request is a POST with content type \<open>application/json\<close>, and its
  \<open>Content-Length\<close> should be the number of bytes of the body sent. On the code the
  header is \<open>data.length\<close>, the number of UTF-16 code units of the serialised
  payload, while the body goes out in UTF-8: for the message of a started event
  the header says 115 and the body has 119 bytes, for the countdown message at 2
  days 03:04:05 the header says 422 and the body has 428 bytes.
\<close>

theorem sendToSlack_content_length_mismatch:
  "http_method (sendToSlack_request url message) = js ''POST''
   \<and> Content_Type (sendToSlack_request url message) = js ''application/json''
   \<and> Content_Length (sendToSlack_request url message) = length (stringify message)
   \<and> Content_Length (sendToSlack_request url (formatCountdownMessage
        \<lparr>days = 0, hours = 0, minutes = 0, seconds = 0, hasStarted = True\<rparr>)) = 115
   \<and> length (body_bytes (sendToSlack_request url (formatCountdownMessage
        \<lparr>days = 0, hours = 0, minutes = 0, seconds = 0, hasStarted = True\<rparr>))) = 119
   \<and> Content_Length (sendToSlack_request url (formatCountdownMessage
        \<lparr>days = 2, hours = 3, minutes = 4, seconds = 5, hasStarted = False\<rparr>)) = 422
   \<and> length (body_bytes (sendToSlack_request url (formatCountdownMessage
        \<lparr>days = 2, hours = 3, minutes = 4, seconds = 5, hasStarted = False\<rparr>))) = 428"
proof -
  have g: "http_method (sendToSlack_request url message) = js ''POST''
      \<and> Content_Type (sendToSlack_request url message) = js ''application/json''
      \<and> Content_Length (sendToSlack_request url message) = length (stringify message)"
    by (simp add: sendToSlack_request_def Let_def)
  have a: "length (stringify (formatCountdownMessage
        \<lparr>days = 0, hours = 0, minutes = 0, seconds = 0, hasStarted = True\<rparr>)) = 115"
    by (simp add: formatCountdownMessage_def js_def party_popper_def QuoteJSONString_def
        quote_unit_def leading_surrogate_def trailing_surrogate_def)
  have b: "length (utf8 (stringify (formatCountdownMessage
        \<lparr>days = 0, hours = 0, minutes = 0, seconds = 0, hasStarted = True\<rparr>))) = 119"
    by (simp add: formatCountdownMessage_def js_def party_popper_def QuoteJSONString_def
        quote_unit_def leading_surrogate_def trailing_surrogate_def utf8_unit_def
        utf8_code_point_def)
  have c: "length (stringify (formatCountdownMessage
        \<lparr>days = 2, hours = 3, minutes = 4, seconds = 5, hasStarted = False\<rparr>)) = 422"
    by (simp add: formatCountdownMessage_def formattedTime_def padStart_def ToString_def
        digits.simps js_def rocket_def calendar_def bullet_def QuoteJSONString_def
        quote_unit_def leading_surrogate_def trailing_surrogate_def)
  have d: "length (utf8 (stringify (formatCountdownMessage
        \<lparr>days = 2, hours = 3, minutes = 4, seconds = 5, hasStarted = False\<rparr>))) = 428"
    by (simp add: formatCountdownMessage_def formattedTime_def padStart_def ToString_def
        digits.simps js_def rocket_def calendar_def bullet_def QuoteJSONString_def
        quote_unit_def leading_surrogate_def trailing_surrogate_def utf8_unit_def
        utf8_code_point_def)
  have e: "\<And>m. Content_Length (sendToSlack_request url m) = length (stringify m)"
    by (simp add: sendToSlack_request_def Let_def)
  have f: "\<And>m. body_bytes (sendToSlack_request url m) = utf8 (stringify m)"
    by (simp add: body_bytes_def sendToSlack_request_def Let_def)
  show ?thesis
    unfolding e f using g a b c d unfolding e by blast
qed

text \<open>
  Claim C10. The path of the request is the \<open>pathname\<close> of the parsed address and
  nothing else of it: whatever query string and fragment the address carries, the
  request is the one of the address without them.
\<close>

theorem sendToSlack_path_drops_query:
  "path (sendToSlack_request url message) = pathname url
   \<and> sendToSlack_request (url\<lparr>search := query, url_hash := fragment\<rparr>) message =
       sendToSlack_request url message"
  by (simp add: sendToSlack_request_def Let_def)

theorem sendToSlack_path_drops_query_witness:
  "search sample_url = js ''?channel=general''
   \<and> path (sendToSlack_request sample_url (JString (js ''hello''))) = js ''/services/T0/B0/XYZ''
   \<and> sendToSlack_request (sample_url\<lparr>search := [], url_hash := []\<rparr>) (JString (js ''hello'')) =
       sendToSlack_request sample_url (JString (js ''hello''))"
  using sendToSlack_path_drops_query [of sample_url "JString (js ''hello'')" "[]" "[]"]
  by (simp add: sample_url_def)

section \<open>The scheduler and driver\<close>

subsection \<open>Start of the process\<close>

lemma main_unset:
  assumes "SLACK_WEBHOOK_URL env = None \<or> SLACK_WEBHOOK_URL env = Some []"
  shows "main env now =
     \<lparr>countdownInterval = False, exited = Some 1,
      console = [ConsoleError (js ''ERROR: SLACK_WEBHOOK_URL environment variable is not set''),
                 ConsoleError (js ''Please set it to your Slack incoming webhook URL'')],
      requests = [], awaiting = []\<rparr>"
  using assms by (auto simp add: main_def falsy_def)

lemma main_parsed:
  assumes "SLACK_WEBHOOK_URL env = Some address" and "address \<noteq> []"
    and "new_URL env address = Inr url"
  shows "main env now =
     \<lparr>countdownInterval = True, exited = None,
      console = [Log (js ''Starting Dreamers in Tech Hackathon countdown bot...''),
                 LogDate (js ''Target date: '') TARGET_DATE,
                 Log (js ''Update interval: '' @ ToString (UPDATE_INTERVAL div 1000) @
                      js '' seconds'')],
      requests = [sendToSlack_request url
                    (formatCountdownMessage (getTimeRemaining TARGET_DATE now))],
      awaiting = [(0, getTimeRemaining TARGET_DATE now)]\<rparr>"
  using assms by (simp add: main_def falsy_def updateCountdown_begin_def Let_def)

lemma main_unparsed:
  assumes "SLACK_WEBHOOK_URL env = Some address" and "address \<noteq> []"
    and "new_URL env address = Inl error"
  shows "main env now =
     \<lparr>countdownInterval = True, exited = None,
      console = [Log (js ''Starting Dreamers in Tech Hackathon countdown bot...''),
                 LogDate (js ''Target date: '') TARGET_DATE,
                 Log (js ''Update interval: '' @ ToString (UPDATE_INTERVAL div 1000) @
                      js '' seconds''),
                 ConsoleErrorWith (js ''Failed to update countdown:'') error],
      requests = [], awaiting = []\<rparr>"
  using assms by (simp add: main_def falsy_def updateCountdown_begin_def Let_def)

lemma sample_address_nonempty: "sample_address \<noteq> []"
  by (simp add: sample_address_def js_def)

lemma main_sample:
  "main sample_env now =
     \<lparr>countdownInterval = True, exited = None,
      console = [Log (js ''Starting Dreamers in Tech Hackathon countdown bot...''),
                 LogDate (js ''Target date: '') TARGET_DATE,
                 Log (js ''Update interval: '' @ ToString (UPDATE_INTERVAL div 1000) @
                      js '' seconds'')],
      requests = [sendToSlack_request sample_url
                    (formatCountdownMessage (getTimeRemaining TARGET_DATE now))],
      awaiting = [(0, getTimeRemaining TARGET_DATE now)]\<rparr>"
  by (rule main_parsed [where address = sample_address])
     (simp_all add: sample_env_def sample_parser_def sample_address_nonempty)

subsection \<open>One tick\<close>

lemma updateCountdown_resume_rejected:
  assumes "sendToSlack_settle outcome = (printed, Inl error)"
  shows "updateCountdown_resume timeRemaining outcome p =
           p\<lparr>console := console p @ printed @
                [ConsoleErrorWith (js ''Failed to update countdown:'') error]\<rparr>"
  using assms by (simp add: updateCountdown_resume_def)

lemma updateCountdown_resume_resolved:
  assumes "sendToSlack_settle outcome = (printed, Inr responseData)"
  shows "updateCountdown_resume timeRemaining outcome p =
           (if hasStarted timeRemaining
            then p\<lparr>console := console p @ printed @
                      [Log (js ''Event has started! Stopping countdown updates.'')],
                   countdownInterval := False\<rparr>
            else p\<lparr>console := console p @ printed\<rparr>)"
  using assms by (simp add: updateCountdown_resume_def)

lemma step_settled:
  assumes "exited p = None" and "map_of (awaiting p) i = Some timeRemaining"
  shows "step env p (Settled i outcome) =
           updateCountdown_resume timeRemaining outcome
             (p\<lparr>awaiting := filter (\<lambda>a. fst a \<noteq> i) (awaiting p)\<rparr>)"
  using assms by (simp add: step_def)

lemma step_timer:
  assumes "exited p = None" and "countdownInterval p"
  shows "step env p (Timer now) = updateCountdown_begin env now p"
  using assms by (simp add: step_def)


lemma step_settled_rejected:
  assumes "exited p = None" and "map_of (awaiting p) i = Some timeRemaining"
    and "sendToSlack_settle outcome = (printed, Inl error)"
  shows "step env p (Settled i outcome) =
           p\<lparr>awaiting := filter (\<lambda>a. fst a \<noteq> i) (awaiting p),
             console := console p @ printed @
               [ConsoleErrorWith (js ''Failed to update countdown:'') error]\<rparr>"
  by (simp add: step_settled [OF assms(1,2)] updateCountdown_resume_rejected [OF assms(3)])

subsection \<open>A timer that is not armed\<close>

lemma step_disarmed:
  assumes "\<not> countdownInterval p"
  shows "\<not> countdownInterval (step env p e) \<and> requests (step env p e) = requests p"
proof (cases "exited p = None")
  case False
  then show ?thesis using assms by (simp add: step_def)
next
  case True
  show ?thesis
  proof (cases e)
    case (Timer now)
    then show ?thesis using assms True by (simp add: step_def)
  next
    case (Settled i outcome)
    then show ?thesis using assms True
      by (cases "sendToSlack_settle outcome")
         (auto simp add: step_def updateCountdown_resume_def split: option.splits sum.splits)
  next
    case SIGINT
    then show ?thesis using assms True by (simp add: step_def)
  qed
qed

lemma run_disarmed:
  assumes "\<not> countdownInterval p"
  shows "\<not> countdownInterval (run env p es) \<and> requests (run env p es) = requests p"
  using assms
proof (induction es arbitrary: p)
  case Nil
  then show ?case by (simp add: run_def)
next
  case (Cons e es)
  have "\<not> countdownInterval (step env p e)" and r: "requests (step env p e) = requests p"
    using step_disarmed [OF Cons.prems] by simp_all
  then have "\<not> countdownInterval (run env (step env p e) es)
      \<and> requests (run env (step env p e) es) = requests (step env p e)"
    by (intro Cons.IH)
  then show ?case using r by (simp add: run_def)
qed

lemma started_success_stops:
  assumes "exited p = None" and "map_of (awaiting p) i = Some timeRemaining"
    and "hasStarted timeRemaining"
  shows "\<not> countdownInterval (step env p (Settled i (Response 200 chunks)))"
  using assms(3)
  by (simp add: step_settled [OF assms(1,2)]
      updateCountdown_resume_resolved [OF sendToSlack_settle_ok])

subsection \<open>Claims about the scheduler and driver\<close>

text \<open>
  Claim C6. Once a tick has computed \<open>hasStarted\<close> true, the timer should be cancelled
  when its delivery completes, whether it succeeded or failed. On the code
  \<open>clearInterval\<close> sits after the \<open>await\<close> inside the \<open>try\<close> block, so a rejected
  delivery skips it: the process started at the target instant, whose first
  delivery is answered with status 429 or fails with an error, still has its timer
  armed, and the next firing of the timer issues a second request. Only the
  delivery answered with status 200 disarms the timer.
\<close>

theorem updateCountdown_started_failure_keeps_timer:
  "hasStarted (getTimeRemaining TARGET_DATE TARGET_DATE)
   \<and> awaiting (main sample_env TARGET_DATE) = [(0, getTimeRemaining TARGET_DATE TARGET_DATE)]
   \<and> countdownInterval (step sample_env (main sample_env TARGET_DATE)
         (Settled 0 (Response 429 [js ''rate_limited''])))
   \<and> length (requests (run sample_env (main sample_env TARGET_DATE)
         [Settled 0 (Response 429 [js ''rate_limited'']), Timer (TARGET_DATE + 60000)])) = 2
   \<and> countdownInterval (step sample_env (main sample_env TARGET_DATE)
         (Settled 0 (ErrorEvent (SystemError (js ''ECONNRESET'')))))
   \<and> length (requests (run sample_env (main sample_env TARGET_DATE)
         [Settled 0 (ErrorEvent (SystemError (js ''ECONNRESET''))),
          Timer (TARGET_DATE + 60000)])) = 2
   \<and> \<not> countdownInterval (step sample_env (main sample_env TARGET_DATE)
         (Settled 0 (Response 200 [js ''ok''])))"
proof -
  have started: "hasStarted (getTimeRemaining TARGET_DATE TARGET_DATE)"
    by (simp add: getTimeRemaining_def)
  have waiting: "awaiting (main sample_env TARGET_DATE) =
      [(0, getTimeRemaining TARGET_DATE TARGET_DATE)]"
    by (simp add: main_sample)
  have ex: "exited (main sample_env TARGET_DATE) = None"
    by (simp add: main_sample)
  have look: "map_of (awaiting (main sample_env TARGET_DATE)) 0 =
      Some (getTimeRemaining TARGET_DATE TARGET_DATE)"
    by (simp add: waiting)
  have rejected: "sendToSlack_settle (Response 429 [js ''rate_limited'']) =
      ([ConsoleError (js ''Slack API error: '' @ ToString 429 @ js '' - '' @
          concat [js ''rate_limited''])],
       Inl (Error (js ''Slack API returned status '' @ ToString 429)))"
    by (rule sendToSlack_settle_rejected) simp
  have failed: "sendToSlack_settle (ErrorEvent (SystemError (js ''ECONNRESET''))) =
      ([ConsoleErrorWith (js ''Error sending to Slack:'') (SystemError (js ''ECONNRESET''))],
       Inl (SystemError (js ''ECONNRESET'')))"
    by (rule sendToSlack_settle_error)
  have url: "new_URL sample_env sample_address = Inr sample_url"
    "SLACK_WEBHOOK_URL sample_env = Some sample_address"
    by (simp_all add: sample_env_def sample_parser_def)
  have a: "countdownInterval (step sample_env (main sample_env TARGET_DATE)
         (Settled 0 (Response 429 [js ''rate_limited''])))"
    unfolding step_settled_rejected [OF ex look rejected] by (simp add: main_sample)
  have b: "length (requests (run sample_env (main sample_env TARGET_DATE)
         [Settled 0 (Response 429 [js ''rate_limited'']), Timer (TARGET_DATE + 60000)])) = 2"
    unfolding run_def foldl.simps step_settled_rejected [OF ex look rejected]
    by (simp add: main_sample step_def updateCountdown_begin_def url Let_def)
  have c: "countdownInterval (step sample_env (main sample_env TARGET_DATE)
         (Settled 0 (ErrorEvent (SystemError (js ''ECONNRESET'')))))"
    unfolding step_settled_rejected [OF ex look failed] by (simp add: main_sample)
  have d: "length (requests (run sample_env (main sample_env TARGET_DATE)
         [Settled 0 (ErrorEvent (SystemError (js ''ECONNRESET''))),
          Timer (TARGET_DATE + 60000)])) = 2"
    unfolding run_def foldl.simps step_settled_rejected [OF ex look failed]
    by (simp add: main_sample step_def updateCountdown_begin_def url Let_def)
  have e: "\<not> countdownInterval (step sample_env (main sample_env TARGET_DATE)
         (Settled 0 (Response 200 [js ''ok''])))"
    by (rule started_success_stops [OF ex look started])
  from started waiting a b c d e show ?thesis by blast
qed



text \<open>
  Claim C8, as stated: if the variable is present, startup proceeds and the first
  tick runs. It fails on the code when the variable is present and empty: the test
  \<open>!SLACK_WEBHOOK_URL\<close> holds of the empty string, and the process exits with
  status 1 without a request.
\<close>

theorem main_empty_counterexample:
  "SLACK_WEBHOOK_URL empty_env \<noteq> None
   \<and> exited (main empty_env TARGET_DATE) = Some 1
   \<and> requests (main empty_env TARGET_DATE) = []
   \<and> awaiting (main empty_env TARGET_DATE) = []"
  by (simp add: empty_env_def main_def falsy_def)

text \<open>
  Claim C8, amended. If the variable is absent or empty, the process exits with
  status 1 after two diagnostic lines, before any tick: no request is issued and
  no call of \<open>updateCountdown\<close> is under way, whatever the clock and the parser of
  addresses are. If it is present and not empty, the process does not exit, the
  first tick runs at once with the clock of the start (its request is issued, or,
  when the address does not parse, the failure is caught and printed), and the
  timer is armed.
\<close>

theorem main_startup:
  "((SLACK_WEBHOOK_URL env = None \<or> SLACK_WEBHOOK_URL env = Some []) \<longrightarrow>
      main env now =
        \<lparr>countdownInterval = False, exited = Some 1,
         console =
           [ConsoleError (js ''ERROR: SLACK_WEBHOOK_URL environment variable is not set''),
            ConsoleError (js ''Please set it to your Slack incoming webhook URL'')],
         requests = [], awaiting = []\<rparr>)
   \<and> (SLACK_WEBHOOK_URL env = Some address \<and> address \<noteq> [] \<and> new_URL env address = Inr url \<longrightarrow>
        exited (main env now) = None \<and> countdownInterval (main env now)
        \<and> requests (main env now) =
            [sendToSlack_request url (formatCountdownMessage (getTimeRemaining TARGET_DATE now))]
        \<and> awaiting (main env now) = [(0, getTimeRemaining TARGET_DATE now)])
   \<and> (SLACK_WEBHOOK_URL env = Some address \<and> address \<noteq> [] \<and> new_URL env address = Inl error \<longrightarrow>
        exited (main env now) = None \<and> countdownInterval (main env now)
        \<and> requests (main env now) = [] \<and> awaiting (main env now) = []
        \<and> last (console (main env now)) =
            ConsoleErrorWith (js ''Failed to update countdown:'') error)"
proof -
  have a: "(SLACK_WEBHOOK_URL env = None \<or> SLACK_WEBHOOK_URL env = Some []) \<longrightarrow>
      main env now =
        \<lparr>countdownInterval = False, exited = Some 1,
         console =
           [ConsoleError (js ''ERROR: SLACK_WEBHOOK_URL environment variable is not set''),
            ConsoleError (js ''Please set it to your Slack incoming webhook URL'')],
         requests = [], awaiting = []\<rparr>"
    using main_unset by blast
  have b: "SLACK_WEBHOOK_URL env = Some address \<and> address \<noteq> [] \<and> new_URL env address = Inr url \<longrightarrow>
        exited (main env now) = None \<and> countdownInterval (main env now)
        \<and> requests (main env now) =
            [sendToSlack_request url (formatCountdownMessage (getTimeRemaining TARGET_DATE now))]
        \<and> awaiting (main env now) = [(0, getTimeRemaining TARGET_DATE now)]"
    by (simp add: main_parsed)
  have c: "SLACK_WEBHOOK_URL env = Some address \<and> address \<noteq> [] \<and> new_URL env address = Inl error \<longrightarrow>
        exited (main env now) = None \<and> countdownInterval (main env now)
        \<and> requests (main env now) = [] \<and> awaiting (main env now) = []
        \<and> last (console (main env now)) =
            ConsoleErrorWith (js ''Failed to update countdown:'') error"
    by (simp add: main_unparsed)
  from a b c show ?thesis by blast
qed

theorem main_startup_witness:
  "SLACK_WEBHOOK_URL unset_env = None
   \<and> exited (main unset_env TARGET_DATE) = Some 1
   \<and> requests (main unset_env TARGET_DATE) = []
   \<and> SLACK_WEBHOOK_URL sample_env = Some sample_address \<and> sample_address \<noteq> []
   \<and> new_URL sample_env sample_address = Inr sample_url
   \<and> exited (main sample_env (TARGET_DATE - 1)) = None
   \<and> countdownInterval (main sample_env (TARGET_DATE - 1))
   \<and> requests (main sample_env (TARGET_DATE - 1)) =
       [sendToSlack_request sample_url
          (formatCountdownMessage (getTimeRemaining TARGET_DATE (TARGET_DATE - 1)))]"
proof -
  have h1: "SLACK_WEBHOOK_URL unset_env = None"
    by (simp add: unset_env_def)
  have h2: "SLACK_WEBHOOK_URL sample_env = Some sample_address"
    by (simp add: sample_env_def)
  have h3: "new_URL sample_env sample_address = Inr sample_url"
    by (simp add: sample_env_def sample_parser_def)
  note h4 = sample_address_nonempty
  have u: "exited (main unset_env TARGET_DATE) = Some 1 \<and> requests (main unset_env TARGET_DATE) = []"
    using main_startup [of unset_env TARGET_DATE] h1 by simp
  have s: "exited (main sample_env (TARGET_DATE - 1)) = None
     \<and> countdownInterval (main sample_env (TARGET_DATE - 1))
     \<and> requests (main sample_env (TARGET_DATE - 1)) =
       [sendToSlack_request sample_url
          (formatCountdownMessage (getTimeRemaining TARGET_DATE (TARGET_DATE - 1)))]"
    using main_startup [of sample_env "TARGET_DATE - 1" sample_address sample_url] h2 h3 h4
    by simp
  from h1 h2 h3 h4 u s show ?thesis by blast
qed

end
